theory Spec2Isabelle
  imports Main "HOL-Library.Monad_Syntax"
begin

section \<open>Strings\<close>

text \<open>
  A Python \<open>str\<close> is modelled as a \<open>string\<close> whose characters stand for code points
  below 256; on this range the definitions below agree with Python's \<open>str.isspace\<close>,
  \<open>str.strip\<close>, \<open>str.lower\<close> and with the class \<open>\s\<close> of the \<open>re\<close> module.
\<close>

definition isspace :: "char \<Rightarrow> bool" where
  "isspace c = ((of_char c :: nat) \<in> {9, 10, 11, 12, 13, 28, 29, 30, 31, 32, 133, 160})"

definition strip :: "string \<Rightarrow> string" where
  "strip s = rev (dropWhile isspace (rev (dropWhile isspace s)))"

definition lower_char :: "char \<Rightarrow> char" where
  "lower_char c =
     (let n = (of_char c :: nat)
      in if (65 \<le> n \<and> n \<le> 90) \<or> (192 \<le> n \<and> n \<le> 214) \<or> (216 \<le> n \<and> n \<le> 222)
         then char_of (n + 32) else c)"

definition lower :: "string \<Rightarrow> string" where
  "lower s = map lower_char s"

section \<open>The record of a word: \<open>WordInfo\<close>\<close>

record WordInfo =
  meaning :: string
  opposites :: "string list"
  similar_words :: "string list"
  sentences :: "string list"
  image_prompt :: string

section \<open>Decoded JSON and schema validation\<close>

text \<open>
  What \<open>json.loads\<close> returns: \<open>None\<close>, a bool, an int, a float (kept as its lexeme),
  a str, a list or a dict. A dict is the list of its items, in insertion order, the keys
  distinct; a key is looked up with \<open>map_of\<close>.
\<close>

datatype json =
    JNull
  | JBool bool
  | JInt int
  | JFloat string
  | JString string
  | JArray "json list"
  | JObject "(string \<times> json) list"

text \<open>
  The field types of \<open>WordInfo\<close> are \<open>str\<close> and \<open>list[str]\<close>. Validation is pydantic's
  (version 2, default configuration): of the values a JSON decoder produces, a \<open>str\<close> field
  takes a string only, a \<open>list[str]\<close> field takes a list whose elements are all strings, of
  any length; a field declared with \<open>Field(...)\<close> is required; keys that name no field are
  ignored; the value is stored as it is.
\<close>

fun validate_str :: "json \<Rightarrow> string option" where
  "validate_str (JString s) = Some s"
| "validate_str _ = None"

fun validate_str_list :: "json \<Rightarrow> string list option" where
  "validate_str_list (JArray xs) = those (map validate_str xs)"
| "validate_str_list _ = None"

definition required :: "(string \<times> json) list \<Rightarrow> string \<Rightarrow> (json \<Rightarrow> 'a option) \<Rightarrow> 'a option" where
  "required kvs k validate = (case map_of kvs k of None \<Rightarrow> None | Some v \<Rightarrow> validate v)"

fun model_validate :: "json \<Rightarrow> WordInfo option" where
  "model_validate (JObject kvs) =
     do {
       m \<leftarrow> required kvs ''meaning'' validate_str;
       os \<leftarrow> required kvs ''opposites'' validate_str_list;
       ss \<leftarrow> required kvs ''similar_words'' validate_str_list;
       ts \<leftarrow> required kvs ''sentences'' validate_str_list;
       p \<leftarrow> required kvs ''image_prompt'' validate_str;
       Some \<lparr>meaning = m, opposites = os, similar_words = ss, sentences = ts, image_prompt = p\<rparr>
     }"
| "model_validate _ = None"

text \<open>
  The exceptions the program meets, all of them subclasses of \<open>Exception\<close>: pydantic's
  \<open>ValidationError\<close>, \<open>ValueError\<close> with its message, \<open>TypeError\<close>, the
  \<open>JSONDecodeError\<close> of the decoder (a subclass of \<open>ValueError\<close>), \<open>RecursionError\<close> (a
  subclass of \<open>RuntimeError\<close>, raised by the decoder on a text nested deeper than the
  interpreter's recursion limit), and any other one, under its name, which is neither a
  \<open>ValueError\<close> nor a \<open>TypeError\<close> (an error of the model's client or of the HTTP client).
\<close>

datatype exn =
    ValidationError
  | ValueError string
  | TypeError
  | JSONDecodeError
  | RecursionError
  | OtherException string

text \<open>
  \<open>isinstance(exc, (ValueError, TypeError))\<close>; pydantic's \<open>ValidationError\<close> is a subclass of
  \<open>ValueError\<close>.
\<close>

fun is_value_or_type_error :: "exn \<Rightarrow> bool" where
  "is_value_or_type_error ValidationError = True"
| "is_value_or_type_error (ValueError msg) = True"
| "is_value_or_type_error TypeError = True"
| "is_value_or_type_error JSONDecodeError = True"
| "is_value_or_type_error RecursionError = False"
| "is_value_or_type_error (OtherException name) = False"

text \<open>
  \<open>WordInfo.parse_raw\<close>: decode the text, then validate the decoded value. The decoder
  \<open>json.loads\<close> is the parameter \<open>loads\<close>: the decoded value, or the exception it raises.
  \<open>parse_raw\<close> turns a \<open>ValueError\<close> or \<open>TypeError\<close> of the decoder into
  \<open>ValidationError\<close> and lets any other exception of the decoder through; a value the
  schema rejects raises \<open>ValidationError\<close>.
\<close>

definition parse_raw :: "(string \<Rightarrow> exn + json) \<Rightarrow> string \<Rightarrow> exn + WordInfo" where
  "parse_raw loads b =
     (case loads b of
        Inl exc \<Rightarrow> (if is_value_or_type_error exc then Inl ValidationError else Inl exc)
      | Inr obj \<Rightarrow> (case model_validate obj of None \<Rightarrow> Inl ValidationError | Some data \<Rightarrow> Inr data))"

section \<open>Cleaning the response\<close>

text \<open>
  \<open>re.sub(r"^```json\s*|\s*```$", "", response_text.strip(), flags=re.DOTALL)\<close>.
  Without \<open>re.MULTILINE\<close>, \<open>^\<close> matches at position 0 only and \<open>$\<close> at the end of the
  string or before a newline that ends it. Each matcher returns the text after its match.
  In the second alternative the greedy \<open>\s*\<close> never gives a character back with success:
  the character it would give back is a space, not a backquote.
\<close>

definition at_end :: "string \<Rightarrow> bool" where
  "at_end s = (s = [] \<or> s = [CHR 0x0A])"

definition match_open :: "string \<Rightarrow> string option" where
  "match_open s =
     (if take 7 s = ''```json'' then Some (dropWhile isspace (drop 7 s)) else None)"

definition match_close :: "string \<Rightarrow> string option" where
  "match_close s =
     (let r = dropWhile isspace s
      in if take 3 r = ''```'' \<and> at_end (drop 3 r) then Some (drop 3 r) else None)"

text \<open>
  The scan of \<open>re.sub\<close> after position 0, where only the second alternative can match:
  the leftmost match is replaced by the empty string and the scan goes on after it.
\<close>

function sub_from :: "string \<Rightarrow> string" where
  "sub_from [] = []"
| "sub_from (c # cs) =
     (case match_close (c # cs) of
        Some rest \<Rightarrow> sub_from rest
      | None \<Rightarrow> c # sub_from cs)"
  by pat_completeness auto
termination
proof (relation "measure length")
  show "wf (measure length)" by simp
next
  fix c cs rest
  assume a: "match_close (c # cs) = Some rest"
  let ?d = "dropWhile isspace (c # cs)"
  from a have t: "take 3 ?d = ''```''" and r: "rest = drop 3 ?d"
    by (auto simp: match_close_def Let_def split: if_splits)
  from t have "length (take 3 ?d) = 3" by simp
  then have "3 \<le> length ?d" by simp
  moreover have "length ?d \<le> length (c # cs)" by (rule length_dropWhile_le)
  ultimately show "(rest, c # cs) \<in> measure length" using r by simp
next
  fix c cs
  show "(cs, c # cs) \<in> measure length" by simp
qed

definition re_sub :: "string \<Rightarrow> string" where
  "re_sub s = (case match_open s of Some rest \<Rightarrow> sub_from rest | None \<Rightarrow> sub_from s)"

definition clean_response :: "string \<Rightarrow> string" where
  "clean_response response_text = re_sub (strip response_text)"

section \<open>Effects\<close>

text \<open>
  Everything the program does beyond returning values, in the order it does it: the calls
  to the two backends, the lines written to the log and the messages put on the page.
  The formatted text of a log line or a message is not kept, only its kind and the values
  it is built from.
\<close>

datatype event =
    LlmInvoke string
  | LogRawResponse string string
  | LogCleanedResponse string string
  | LogValidationFailed string
  | RequestsGet string
  | LogImageFetchFailed exn
  | StWarning
  | StSuccess string
  | StShow WordInfo
  | StError
  | LogException string exn

section \<open>\<open>get_word_details\<close>\<close>

text \<open>
  The parameter \<open>llm\<close> is the language model behind the prompt template: it takes the
  word the prompt is built from and gives the text of the reply (\<open>response.content\<close>), or
  raises. An exception of the model is not caught here. Only \<open>ValidationError\<close> is caught
  around \<open>parse_raw\<close>, and \<open>ValueError("AI response format error.")\<close> is raised in its
  place; any other exception of \<open>parse_raw\<close> leaves the function as it is.
\<close>

definition format_error :: exn where
  "format_error = ValueError ''AI response format error.''"

definition get_word_details ::
  "(string \<Rightarrow> exn + string) \<Rightarrow> (string \<Rightarrow> exn + json) \<Rightarrow> string
     \<Rightarrow> (exn + WordInfo) \<times> event list" where
  "get_word_details llm loads word =
     (case llm word of
        Inl e \<Rightarrow> (Inl e, [LlmInvoke word])
      | Inr response_text \<Rightarrow>
          (let cleaned = clean_response response_text;
               evs = [LlmInvoke word, LogRawResponse word response_text,
                      LogCleanedResponse word cleaned]
           in case parse_raw loads cleaned of
                Inr data \<Rightarrow> (Inr data, evs)
              | Inl ValidationError \<Rightarrow> (Inl format_error, evs @ [LogValidationFailed word])
              | Inl e \<Rightarrow> (Inl e, evs)))"

section \<open>\<open>get_image_for_word\<close>\<close>

text \<open>
  The parameter \<open>requests_get\<close> is the HTTP client: the status code of the reply to a GET
  of the URL, or the exception it raises. \<open>image_try\<close> is the body of the \<open>try\<close>
  statement; \<open>get_image_for_word\<close> adds the handler \<open>except Exception\<close>, which logs the
  exception and returns \<open>None\<close>.
\<close>

definition replace_char :: "char \<Rightarrow> char \<Rightarrow> string \<Rightarrow> string" where
  "replace_char old new s = map (\<lambda>c. if c = old then new else c) s"

definition image_url_of :: "string \<Rightarrow> string" where
  "image_url_of description =
     ''https://source.unsplash.com/512x512/?'' @ replace_char CHR '' '' CHR ''+'' description
       @ '',cartoon,colorful''"

definition image_try ::
  "(string \<Rightarrow> exn + int) \<Rightarrow> string \<Rightarrow> (exn + string option) \<times> event list" where
  "image_try requests_get description =
     (let image_url = image_url_of description
      in case requests_get image_url of
           Inl e \<Rightarrow> (Inl e, [RequestsGet image_url])
         | Inr status_code \<Rightarrow>
             (if status_code = 200 then (Inr (Some image_url), [RequestsGet image_url])
              else (Inr None, [RequestsGet image_url])))"

definition get_image_for_word ::
  "(string \<Rightarrow> exn + int) \<Rightarrow> string \<Rightarrow> (exn + string option) \<times> event list" where
  "get_image_for_word requests_get description =
     (case image_try requests_get description of
        (Inr image_url, evs) \<Rightarrow> (Inr image_url, evs)
      | (Inl e, evs) \<Rightarrow> (Inr None, evs @ [LogImageFetchFailed e]))"

section \<open>The session and the handler of the button\<close>

text \<open>
  \<open>st.session_state.history\<close> is a dict from the word to the fields of its record
  (\<open>info.dict()\<close>): a list of items in insertion order with distinct keys, empty when
  the session starts. \<open>history[word] = v\<close> replaces the value of a key the dict has, at
  its place, and appends a new key.
\<close>

fun dict_setitem :: "('k \<times> 'v) list \<Rightarrow> 'k \<Rightarrow> 'v \<Rightarrow> ('k \<times> 'v) list" where
  "dict_setitem [] k v = [(k, v)]"
| "dict_setitem ((k', v') # kvs) k v =
     (if k' = k then (k, v) # kvs else (k', v') # dict_setitem kvs k v)"

definition dict_getitem :: "('k \<times> 'v) list \<Rightarrow> 'k \<Rightarrow> 'v option" where
  "dict_getitem d k = map_of d k"

record session =
  history :: "(string \<times> WordInfo) list"
  effects :: "event list"

definition new_session :: session where
  "new_session = \<lparr>history = [], effects = []\<rparr>"

text \<open>
  The body of \<open>if st.button("Explore Word")\<close>, with \<open>word\<close> the text of the input box.
  The handler \<open>except Exception\<close> covers both calls and the assignment to the history.
\<close>

definition explore_word ::
  "(string \<Rightarrow> exn + string) \<Rightarrow> (string \<Rightarrow> exn + json) \<Rightarrow> (string \<Rightarrow> exn + int)
     \<Rightarrow> string \<Rightarrow> session \<Rightarrow> session" where
  "explore_word llm loads requests_get word s =
     (if strip word = [] then s\<lparr>effects := effects s @ [StWarning]\<rparr>
      else
        (let word = lower (strip word)
         in case get_word_details llm loads word of
              (Inl e, evs) \<Rightarrow> s\<lparr>effects := effects s @ evs @ [StError, LogException word e]\<rparr>
            | (Inr info, evs) \<Rightarrow>
                (case get_image_for_word requests_get (image_prompt info) of
                   (Inl e, evs') \<Rightarrow>
                     s\<lparr>effects := effects s @ evs @ evs' @ [StError, LogException word e]\<rparr>
                 | (Inr image_url, evs') \<Rightarrow>
                     s\<lparr>history := dict_setitem (history s) word info,
                       effects := effects s @ evs @ evs' @ [StSuccess word, StShow info]\<rparr>)))"

section \<open>Facts about validation\<close>

lemma those_validate_str: "those (map (validate_str \<circ> JString) xs) = Some xs"
  by (induction xs) simp_all

lemma validate_str_Some: "validate_str v = Some s \<longleftrightarrow> v = JString s"
  by (cases v) auto

lemma those_validate_str_Some:
  "those (map validate_str vs) = Some xs \<Longrightarrow> vs = map JString xs"
  by (induction vs arbitrary: xs) (auto split: option.splits simp: validate_str_Some)

lemma validate_str_list_Some: "validate_str_list v = Some xs \<longleftrightarrow> v = JArray (map JString xs)"
  by (cases v) (auto simp: those_validate_str dest: those_validate_str_Some)

lemma required_str_Some:
  "required kvs k validate_str = Some s \<longleftrightarrow> map_of kvs k = Some (JString s)"
  by (auto simp: required_def validate_str_Some split: option.splits)

lemma required_str_list_Some:
  "required kvs k validate_str_list = Some xs \<longleftrightarrow> map_of kvs k = Some (JArray (map JString xs))"
  by (auto simp: required_def validate_str_list_Some split: option.splits)

lemma model_validate_Some:
  "model_validate j = Some r \<longleftrightarrow>
     (\<exists>kvs. j = JObject kvs
        \<and> map_of kvs ''meaning'' = Some (JString (meaning r))
        \<and> map_of kvs ''opposites'' = Some (JArray (map JString (opposites r)))
        \<and> map_of kvs ''similar_words'' = Some (JArray (map JString (similar_words r)))
        \<and> map_of kvs ''sentences'' = Some (JArray (map JString (sentences r)))
        \<and> map_of kvs ''image_prompt'' = Some (JString (image_prompt r)))"
proof (cases j)
  case (JObject kvs)
  show ?thesis
    unfolding JObject
    by (cases r) (auto simp: bind_eq_Some_conv required_str_Some required_str_list_Some)
qed simp_all

lemma parse_raw_Inr:
  "parse_raw loads b = Inr r \<longleftrightarrow> (\<exists>j. loads b = Inr j \<and> model_validate j = Some r)"
  by (auto simp: parse_raw_def split: option.splits sum.splits)

lemma get_word_details_Inr:
  "llm w = Inr resp \<Longrightarrow> parse_raw loads (clean_response resp) = Inr r \<Longrightarrow>
     get_word_details llm loads w =
       (Inr r, [LlmInvoke w, LogRawResponse w resp, LogCleanedResponse w (clean_response resp)])"
  by (simp add: get_word_details_def Let_def)

lemma get_word_details_Inl:
  "llm w = Inr resp \<Longrightarrow> parse_raw loads (clean_response resp) = Inl ValidationError \<Longrightarrow>
     get_word_details llm loads w =
       (Inl format_error,
        [LlmInvoke w, LogRawResponse w resp, LogCleanedResponse w (clean_response resp),
         LogValidationFailed w])"
  by (simp add: get_word_details_def Let_def)

lemma get_word_details_other:
  "llm w = Inr resp \<Longrightarrow> parse_raw loads (clean_response resp) = Inl e \<Longrightarrow>
     e \<noteq> ValidationError \<Longrightarrow>
     get_word_details llm loads w =
       (Inl e, [LlmInvoke w, LogRawResponse w resp, LogCleanedResponse w (clean_response resp)])"
  by (cases e) (simp_all add: get_word_details_def Let_def)

section \<open>Facts about stripping and cleaning\<close>

lemma dropWhile_all: "list_all P xs \<Longrightarrow> dropWhile P (xs @ ys) = dropWhile P ys"
  by (induction xs) simp_all

lemma strip_pad:
  assumes "list_all isspace a" "list_all isspace b" "x \<noteq> []"
    "\<not> isspace (hd x)" "\<not> isspace (last x)"
  shows "strip (a @ x @ b) = x"
proof -
  have 1: "dropWhile isspace (a @ x @ b) = x @ b"
    using assms by (cases x) (simp_all add: dropWhile_all)
  have 2: "dropWhile isspace (rev b @ rev x) = rev x"
    using assms by (cases "rev x") (simp_all add: dropWhile_all list_all_iff last_rev hd_rev)
  show ?thesis by (simp add: strip_def 1 2)
qed

lemma strip_blank: "list_all isspace w \<Longrightarrow> strip w = []"
proof -
  assume "list_all isspace w"
  then have d: "dropWhile isspace w = []"
    by (simp add: list_all_iff)
  show ?thesis unfolding strip_def d by simp
qed

lemma strip_Nil_iff: "strip w = [] \<longleftrightarrow> list_all isspace w"
proof
  assume "strip w = []"
  then have "dropWhile isspace (rev (dropWhile isspace w)) = []" by (simp add: strip_def)
  then have a: "\<forall>c \<in> set (dropWhile isspace w). isspace c"
    by (simp add: dropWhile_eq_Nil_conv)
  have "dropWhile isspace w = []"
  proof (rule ccontr)
    assume "dropWhile isspace w \<noteq> []"
    then have "\<not> isspace (hd (dropWhile isspace w))" by (rule hd_dropWhile)
    moreover have "hd (dropWhile isspace w) \<in> set (dropWhile isspace w)"
      using \<open>dropWhile isspace w \<noteq> []\<close> by simp
    ultimately show False using a by blast
  qed
  then show "list_all isspace w" by (simp add: dropWhile_eq_Nil_conv list_all_iff)
qed (rule strip_blank)

lemma match_close_Some:
  "match_close s = Some r \<longleftrightarrow> dropWhile isspace s = ''```'' @ r \<and> at_end r"
proof -
  let ?d = "dropWhile isspace s"
  have "take 3 ?d = ''```'' \<and> r = drop 3 ?d \<longleftrightarrow> ?d = ''```'' @ r"
    by (metis append_take_drop_id append_eq_conv_conj length_Cons list.size(3) numeral_3_eq_3)
  then show ?thesis
    by (auto simp: match_close_def Let_def)
qed


lemma match_close_last:
  assumes "match_close s = Some r"
  shows "s \<noteq> [] \<and> (last s = CHR 0x60 \<or> last s = CHR 0x0A)"
proof -
  from assms have d: "dropWhile isspace s = ''```'' @ r" and e: "at_end r"
    by (simp_all add: match_close_Some)
  have "s = takeWhile isspace s @ ''```'' @ r"
    using takeWhile_dropWhile_id [of isspace s] d by simp
  then obtain t where s: "s = t @ ''```'' @ r" ..
  from e show ?thesis
    by (auto simp: at_end_def s)
qed

lemma sub_from_unchanged:
  "s = [] \<or> (last s \<noteq> CHR 0x60 \<and> last s \<noteq> CHR 0x0A) \<Longrightarrow> sub_from s = s"
proof (induction s)
  case Nil
  show ?case by simp
next
  case (Cons c cs)
  have "match_close (c # cs) = None"
  proof (cases "match_close (c # cs)")
    case (Some r)
    from match_close_last [OF Some] Cons.prems show ?thesis by simp
  qed simp
  moreover have "sub_from cs = cs"
    using Cons by (cases cs) auto
  ultimately show ?case by simp
qed

lemma re_sub_unchanged:
  assumes "s = CHR ''{'' # body @ ''}''"
  shows "re_sub s = s"
proof -
  have "match_open s = None" by (simp add: match_open_def assms)
  moreover have "sub_from s = s"
    by (rule sub_from_unchanged) (simp add: assms)
  ultimately show ?thesis by (simp add: re_sub_def)
qed

lemma match_close_fence: "list_all isspace ws \<Longrightarrow> match_close (ws @ ''```'') = Some []"
  by (simp add: match_close_Some at_end_def dropWhile_all isspace_def)

lemma sub_from_fence: "list_all isspace ws \<Longrightarrow> sub_from (ws @ ''```'') = []"
  using match_close_fence [of ws] by (cases ws) simp_all

lemma match_close_payload:
  assumes "p \<noteq> []" "\<not> isspace (last p)" "list_all isspace ws"
  shows "match_close (p @ ws @ ''```'') = None"
proof (cases "match_close (p @ ws @ ''```'')")
  case (Some r)
  let ?q = "dropWhile isspace p"
  have q: "?q \<noteq> []" using assms(1,2) by auto
  have "last p \<in> set p" using assms(1) by simp
  then have d: "dropWhile isspace (p @ ws @ ''```'') = ?q @ ws @ ''```''"
    using assms(2) by simp
  from Some have eq: "?q @ ws @ ''```'' = ''```'' @ r" and e: "at_end r"
    by (simp_all add: match_close_Some d)
  from eq have "length ?q + length ws + 3 = 3 + length r"
    by (metis length_append length_Cons list.size(3) numeral_3_eq_3 add.assoc)
  with q have "r \<noteq> []" by auto
  with e have r: "r = [CHR 0x0A]" by (simp add: at_end_def)
  from eq have "last (?q @ ws @ ''```'') = last (''```'' @ r)" by simp
  then show ?thesis by (simp add: r)
qed simp

lemma sub_from_payload:
  "p = [] \<or> \<not> isspace (last p) \<Longrightarrow> list_all isspace ws \<Longrightarrow> sub_from (p @ ws @ ''```'') = p"
proof (induction p)
  case Nil
  then show ?case by (simp add: sub_from_fence)
next
  case (Cons c cs)
  have "match_close ((c # cs) @ ws @ ''```'') = None"
    using Cons.prems by (intro match_close_payload) simp_all
  moreover have "sub_from (cs @ ws @ ''```'') = cs"
    using Cons by (cases cs) auto
  ultimately show ?case by simp
qed

lemma strip_fixed:
  assumes "strip p = p"
  shows "p = [] \<or> (\<not> isspace (hd p) \<and> \<not> isspace (last p))"
proof -
  let ?d = "dropWhile isspace p"
  have "length (strip p) = length (dropWhile isspace (rev ?d))" by (simp add: strip_def)
  also have "\<dots> \<le> length (rev ?d)" by (rule length_dropWhile_le)
  finally have "length p \<le> length ?d" using assms by simp
  moreover have "length (takeWhile isspace p) + length ?d = length p"
    by (metis length_append takeWhile_dropWhile_id)
  ultimately have "length (takeWhile isspace p) = 0" by arith
  then have "takeWhile isspace p = []" by (simp only: length_0_conv)
  then have d: "?d = p" using takeWhile_dropWhile_id [of isspace p] by (simp only: append_Nil)
  then have h: "p = [] \<or> \<not> isspace (hd p)" by (simp add: dropWhile_eq_self_iff)
  from assms d have "dropWhile isspace (rev p) = rev p"
    by (simp add: strip_def) (metis rev_rev_ident)
  then have "rev p = [] \<or> \<not> isspace (hd (rev p))" by (simp add: dropWhile_eq_self_iff)
  then have "p = [] \<or> \<not> isspace (last p)" by (auto simp: hd_rev)
  with h show ?thesis by blast
qed

lemma clean_response_brackets:
  "clean_response (replicate (Suc n) CHR ''['') = replicate (Suc n) CHR ''[''"
proof -
  let ?t = "replicate (Suc n) CHR ''[''"
  have l: "last ?t = CHR ''[''"
    using last_replicate [of "Suc n" "CHR ''[''"] by simp
  have h: "hd ?t = CHR ''[''" by simp
  have ne: "?t \<noteq> []" by simp
  have "strip ([] @ ?t @ []) = ?t"
  proof (rule strip_pad)
    show "list_all isspace []" by simp
    show "list_all isspace []" by simp
    show "?t \<noteq> []" by (rule ne)
    show "\<not> isspace (hd ?t)" unfolding h by (simp add: isspace_def)
    show "\<not> isspace (last ?t)" unfolding l by (simp add: isspace_def)
  qed
  then have s: "strip ?t = ?t" by (simp only: append_Nil append_Nil2)
  have "match_open ?t = None" by (simp add: match_open_def)
  moreover have "sub_from ?t = ?t"
    by (rule sub_from_unchanged) (simp only: l, simp)
  ultimately show ?thesis by (simp only: clean_response_def re_sub_def s option.case)
qed

section \<open>Facts about accepted and rejected objects\<close>

lemma model_validate_fields:
  assumes "map_of kvs ''meaning'' = Some (JString m)"
    and "map_of kvs ''opposites'' = Some (JArray (map JString os))"
    and "map_of kvs ''similar_words'' = Some (JArray (map JString ss))"
    and "map_of kvs ''sentences'' = Some (JArray (map JString ts))"
    and "map_of kvs ''image_prompt'' = Some (JString p)"
  shows "model_validate (JObject kvs) =
           Some \<lparr>meaning = m, opposites = os, similar_words = ss, sentences = ts,
                  image_prompt = p\<rparr>"
  using assms by (simp add: required_def those_validate_str)

lemma model_validate_None_str:
  assumes "k \<in> {''meaning'', ''image_prompt''}" and "\<forall>s. map_of kvs k \<noteq> Some (JString s)"
  shows "model_validate (JObject kvs) = None"
proof (cases "model_validate (JObject kvs)")
  case (Some r)
  then show ?thesis using assms
    by (auto simp: model_validate_Some simp del: model_validate.simps)
qed simp

lemma model_validate_None_list:
  assumes "k \<in> {''opposites'', ''similar_words'', ''sentences''}"
    and "\<forall>xs. map_of kvs k \<noteq> Some (JArray (map JString xs))"
  shows "model_validate (JObject kvs) = None"
proof (cases "model_validate (JObject kvs)")
  case (Some r)
  then show ?thesis using assms
    by (auto simp: model_validate_Some simp del: model_validate.simps)
qed simp

lemma model_validate_None_other: "\<forall>kvs. j \<noteq> JObject kvs \<Longrightarrow> model_validate j = None"
  by (cases j) simp_all

section \<open>Facts about the session\<close>

lemma map_of_dict_setitem:
  "map_of (dict_setitem d k v) k' = (if k' = k then Some v else map_of d k')"
  by (induction d) auto

lemma filter_key_absent: "k \<notin> fst ` set d \<Longrightarrow> filter (\<lambda>kv. fst kv = k) d = []"
  by (induction d) auto

lemma keys_dict_setitem: "fst ` set (dict_setitem d k v) = insert k (fst ` set d)"
proof (induction d)
  case Nil
  show ?case by simp
next
  case (Cons kv d)
  obtain a b where kv: "kv = (a, b)" by (cases kv)
  show ?case
  proof (cases "a = k")
    case True
    then show ?thesis by (simp add: kv)
  next
    case False
    then show ?thesis using Cons.IH by (simp add: kv insert_commute)
  qed
qed

lemma distinct_dict_setitem:
  "distinct (map fst d) \<Longrightarrow> distinct (map fst (dict_setitem d k v))"
proof (induction d)
  case Nil
  show ?case by simp
next
  case (Cons kv d)
  obtain a b where kv: "kv = (a, b)" by (cases kv)
  from Cons.prems have a: "a \<notin> fst ` set d" and d: "distinct (map fst d)"
    by (simp_all add: kv)
  show ?case
  proof (cases "a = k")
    case True
    then show ?thesis using a d by (simp add: kv)
  next
    case False
    then have "a \<notin> fst ` set (dict_setitem d k v)"
      using a unfolding keys_dict_setitem by simp
    then show ?thesis using False Cons.IH [OF d] by (simp add: kv)
  qed
qed

lemma one_entry_dict_setitem:
  "distinct (map fst d) \<Longrightarrow> length (filter (\<lambda>kv. fst kv = k) (dict_setitem d k v)) = 1"
proof (induction d)
  case Nil
  show ?case by simp
next
  case (Cons kv d)
  show ?case
  proof (cases "fst kv = k")
    case True
    with Cons.prems have "k \<notin> fst ` set d" by auto
    then have "filter (\<lambda>kv. fst kv = k) d = []" by (rule filter_key_absent)
    with True show ?thesis by (cases kv) simp
  next
    case False
    with Cons show ?thesis by (cases kv) simp
  qed
qed

lemma get_image_for_word_Inr:
  "fst (get_image_for_word requests_get description) =
     Inr (if requests_get (image_url_of description) = Inr 200
          then Some (image_url_of description) else None)"
  by (simp add: get_image_for_word_def image_try_def Let_def split: sum.splits)

lemma explore_word_blank:
  "strip word = [] \<Longrightarrow>
     explore_word llm loads requests_get word s = s\<lparr>effects := effects s @ [StWarning]\<rparr>"
  by (simp add: explore_word_def)

lemma explore_word_failure:
  assumes "strip word \<noteq> []"
    and "get_word_details llm loads (lower (strip word)) = (Inl e, evs)"
  shows "explore_word llm loads requests_get word s =
           s\<lparr>effects := effects s @ evs @ [StError, LogException (lower (strip word)) e]\<rparr>"
  using assms by (simp add: explore_word_def Let_def)

lemma explore_word_success:
  assumes "strip word \<noteq> []"
    and "fst (get_word_details llm loads (lower (strip word))) = Inr info"
  shows "history (explore_word llm loads requests_get word s) =
           dict_setitem (history s) (lower (strip word)) info"
proof -
  obtain evs where g: "get_word_details llm loads (lower (strip word)) = (Inr info, evs)"
    using assms(2) by (cases "get_word_details llm loads (lower (strip word))") simp
  obtain u evs' where i: "get_image_for_word requests_get (image_prompt info) = (Inr u, evs')"
    using get_image_for_word_Inr [of requests_get "image_prompt info"]
    by (cases "get_image_for_word requests_get (image_prompt info)") auto
  show ?thesis using assms(1) by (simp add: explore_word_def Let_def g i)
qed

lemma map_of_filter_keys:
  "k \<in> S \<Longrightarrow> map_of (filter (\<lambda>kv. fst kv \<in> S) kvs) k = map_of kvs k"
  by (induction kvs) auto

section \<open>The claims\<close>

text \<open>
  Claim C1. For every word (the non-empty trimmed ones among them), when the model returns
  a well-formed JSON object matching the schema, \<open>get_word_details\<close> returns the record
  whose five fields are the decoded values, unchanged. The reply is a text that, between
  blanks, starts with an opening brace and ends with a closing one, as the text of every
  JSON object does; the cleaning step leaves such a text as \<open>strip\<close> made it, and the
  decoder gives the object \<open>kvs\<close> for it, with a string under \<open>meaning\<close> and
  \<open>image_prompt\<close> and a list of strings under the three other keys.
\<close>

theorem C1_lookup_roundtrip:
  assumes "llm w = Inr resp"
    and "strip resp = CHR ''{'' # body @ ''}''"
    and "loads (strip resp) = Inr (JObject kvs)"
    and "map_of kvs ''meaning'' = Some (JString m)"
    and "map_of kvs ''opposites'' = Some (JArray (map JString os))"
    and "map_of kvs ''similar_words'' = Some (JArray (map JString ss))"
    and "map_of kvs ''sentences'' = Some (JArray (map JString ts))"
    and "map_of kvs ''image_prompt'' = Some (JString p)"
  shows "get_word_details llm loads w =
           (Inr \<lparr>meaning = m, opposites = os, similar_words = ss, sentences = ts,
                 image_prompt = p\<rparr>,
            [LlmInvoke w, LogRawResponse w resp, LogCleanedResponse w (strip resp)])"
proof -
  let ?r = "\<lparr>meaning = m, opposites = os, similar_words = ss, sentences = ts, image_prompt = p\<rparr>"
  have c: "clean_response resp = strip resp"
    unfolding clean_response_def using assms(2) by (rule re_sub_unchanged)
  have "model_validate (JObject kvs) = Some ?r"
    using assms(4-8) by (rule model_validate_fields)
  then have "parse_raw loads (clean_response resp) = Inr ?r"
    using assms(3) by (simp add: parse_raw_Inr c)
  with assms(1) have "get_word_details llm loads w =
      (Inr ?r, [LlmInvoke w, LogRawResponse w resp, LogCleanedResponse w (clean_response resp)])"
    by (rule get_word_details_Inr)
  then show ?thesis by (simp add: c)
qed

text \<open>
  The example of the specification: the word \<open>happy\<close> and the reply of the mocked model,
  decoded by a decoder that knows this one text.
\<close>

theorem C1_lookup_roundtrip_witness:
  "fst (get_word_details
     (\<lambda>w. Inr ''{\"meaning\":\"feeling good\",\"opposites\":[\"sad\",\"unhappy\",\"gloomy\"],\"similar_words\":[\"glad\",\"joyful\",\"cheerful\"],\"sentences\":[\"I am happy today.\",\"She feels happy now.\",\"We are happy here.\"],\"image_prompt\":\"a smiling sun\"}'')
     (\<lambda>t. if t = ''{\"meaning\":\"feeling good\",\"opposites\":[\"sad\",\"unhappy\",\"gloomy\"],\"similar_words\":[\"glad\",\"joyful\",\"cheerful\"],\"sentences\":[\"I am happy today.\",\"She feels happy now.\",\"We are happy here.\"],\"image_prompt\":\"a smiling sun\"}''
          then Inr (JObject
            [(''meaning'', JString ''feeling good''),
             (''opposites'', JArray [JString ''sad'', JString ''unhappy'', JString ''gloomy'']),
             (''similar_words'', JArray [JString ''glad'', JString ''joyful'', JString ''cheerful'']),
             (''sentences'', JArray [JString ''I am happy today.'', JString ''She feels happy now.'',
                 JString ''We are happy here.'']),
             (''image_prompt'', JString ''a smiling sun'')])
          else Inl JSONDecodeError)
     ''happy'')
   = Inr \<lparr>meaning = ''feeling good'', opposites = [''sad'', ''unhappy'', ''gloomy''],
           similar_words = [''glad'', ''joyful'', ''cheerful''],
           sentences = [''I am happy today.'', ''She feels happy now.'', ''We are happy here.''],
           image_prompt = ''a smiling sun''\<rparr>"
proof -
  let ?body = "''\"meaning\":\"feeling good\",\"opposites\":[\"sad\",\"unhappy\",\"gloomy\"],\"similar_words\":[\"glad\",\"joyful\",\"cheerful\"],\"sentences\":[\"I am happy today.\",\"She feels happy now.\",\"We are happy here.\"],\"image_prompt\":\"a smiling sun\"''"
  let ?t = "CHR ''{'' # ?body @ ''}''"
  let ?kvs = "[(''meaning'', JString ''feeling good''),
             (''opposites'', JArray [JString ''sad'', JString ''unhappy'', JString ''gloomy'']),
             (''similar_words'', JArray [JString ''glad'', JString ''joyful'', JString ''cheerful'']),
             (''sentences'', JArray [JString ''I am happy today.'', JString ''She feels happy now.'',
                 JString ''We are happy here.'']),
             (''image_prompt'', JString ''a smiling sun'')]"
  show ?thesis
    using C1_lookup_roundtrip
      [of "\<lambda>w. Inr ?t" "''happy''" ?t ?body
          "\<lambda>t. if t = ?t then Inr (JObject ?kvs) else Inl JSONDecodeError" ?kvs
          "''feeling good''" "[''sad'', ''unhappy'', ''gloomy'']"
          "[''glad'', ''joyful'', ''cheerful'']"
          "[''I am happy today.'', ''She feels happy now.'', ''We are happy here.'']"
          "''a smiling sun''"]
    by (simp add: strip_def isspace_def)
qed

text \<open>
  Claim C2, as stated, promises the format error for every malformed text. A text nested
  deeper than the interpreter's recursion limit, such as 1100 opening brackets, is
  malformed, and the decoder leaves it with \<open>RecursionError\<close>, which is neither converted
  by \<open>parse_raw\<close> nor caught by \<open>except ValidationError\<close>: the lookup raises
  \<open>RecursionError\<close>, not the format error.
\<close>

theorem C2_deep_nesting_counterexample:
  "get_word_details (\<lambda>w. Inr (replicate 1100 CHR ''[''))
     (\<lambda>t. if t = replicate 1100 CHR ''['' then Inl RecursionError else Inl JSONDecodeError)
     ''happy''
   = (Inl RecursionError,
      [LlmInvoke ''happy'', LogRawResponse ''happy'' (replicate 1100 CHR ''[''),
       LogCleanedResponse ''happy'' (replicate 1100 CHR ''['')])
   \<and> RecursionError \<noteq> format_error"
proof -
  have "clean_response (replicate (Suc 1099) CHR ''['') = replicate (Suc 1099) CHR ''[''"
    by (rule clean_response_brackets)
  then have c: "clean_response (replicate 1100 CHR ''['') = replicate 1100 CHR ''[''"
    by simp
  show ?thesis
    by (simp add: get_word_details_def Let_def parse_raw_def c format_error_def)
qed

text \<open>
  Claim C2, amended. Take the text handed to the validator (the cleaned reply). When the
  decoder rejects it with a decoding error (a \<open>ValueError\<close> or a \<open>TypeError\<close>, as
  \<open>JSONDecodeError\<close> is), or it decodes to something that is not an object, or to an
  object where \<open>meaning\<close> or \<open>image_prompt\<close> is missing or not a string, or where
  \<open>opposites\<close>, \<open>similar_words\<close> or \<open>sentences\<close> is missing or not a list of strings, the
  lookup raises the format error \<open>ValueError("AI response format error.")\<close>. When the
  decoder fails with any other exception, the lookup raises that exception. In both cases
  no record is returned, whole or partial.
\<close>

theorem C2_invalid_response_format_error:
  assumes "llm w = Inr resp"
  shows "((\<exists>e. loads (clean_response resp) = Inl e \<and> is_value_or_type_error e)
          \<or> (\<exists>j. loads (clean_response resp) = Inr j \<and> (\<forall>kvs. j \<noteq> JObject kvs))
          \<or> (\<exists>kvs. loads (clean_response resp) = Inr (JObject kvs)
                \<and> (\<exists>k \<in> {''meaning'', ''image_prompt''}.
                      \<forall>s. map_of kvs k \<noteq> Some (JString s)))
          \<or> (\<exists>kvs. loads (clean_response resp) = Inr (JObject kvs)
                \<and> (\<exists>k \<in> {''opposites'', ''similar_words'', ''sentences''}.
                      \<forall>xs. map_of kvs k \<noteq> Some (JArray (map JString xs))))
          \<longrightarrow> get_word_details llm loads w =
                (Inl format_error,
                 [LlmInvoke w, LogRawResponse w resp,
                  LogCleanedResponse w (clean_response resp), LogValidationFailed w]))
       \<and> (\<forall>e. loads (clean_response resp) = Inl e \<and> \<not> is_value_or_type_error e
            \<longrightarrow> get_word_details llm loads w =
                  (Inl e, [LlmInvoke w, LogRawResponse w resp,
                           LogCleanedResponse w (clean_response resp)]))"
proof (intro conjI impI allI)
  assume bad: "(\<exists>e. loads (clean_response resp) = Inl e \<and> is_value_or_type_error e)
          \<or> (\<exists>j. loads (clean_response resp) = Inr j \<and> (\<forall>kvs. j \<noteq> JObject kvs))
          \<or> (\<exists>kvs. loads (clean_response resp) = Inr (JObject kvs)
                \<and> (\<exists>k \<in> {''meaning'', ''image_prompt''}.
                      \<forall>s. map_of kvs k \<noteq> Some (JString s)))
          \<or> (\<exists>kvs. loads (clean_response resp) = Inr (JObject kvs)
                \<and> (\<exists>k \<in> {''opposites'', ''similar_words'', ''sentences''}.
                      \<forall>xs. map_of kvs k \<noteq> Some (JArray (map JString xs))))"
  have "parse_raw loads (clean_response resp) = Inl ValidationError"
    using bad
  proof (elim disjE exE conjE bexE)
    fix e assume "loads (clean_response resp) = Inl e" "is_value_or_type_error e"
    then show ?thesis by (simp add: parse_raw_def)
  next
    fix j assume "loads (clean_response resp) = Inr j" "\<forall>kvs. j \<noteq> JObject kvs"
    then show ?thesis by (simp add: parse_raw_def model_validate_None_other)
  next
    fix kvs k
    assume "loads (clean_response resp) = Inr (JObject kvs)"
      "k \<in> {''meaning'', ''image_prompt''}" "\<forall>s. map_of kvs k \<noteq> Some (JString s)"
    then show ?thesis
      by (simp add: parse_raw_def model_validate_None_str [of k] del: model_validate.simps)
  next
    fix kvs k
    assume "loads (clean_response resp) = Inr (JObject kvs)"
      "k \<in> {''opposites'', ''similar_words'', ''sentences''}"
      "\<forall>xs. map_of kvs k \<noteq> Some (JArray (map JString xs))"
    then show ?thesis
      by (simp add: parse_raw_def model_validate_None_list [of k] del: model_validate.simps)
  qed
  with assms show "get_word_details llm loads w =
      (Inl format_error,
       [LlmInvoke w, LogRawResponse w resp, LogCleanedResponse w (clean_response resp),
        LogValidationFailed w])"
    by (rule get_word_details_Inl)
next
  fix e
  assume e: "loads (clean_response resp) = Inl e \<and> \<not> is_value_or_type_error e"
  then have "parse_raw loads (clean_response resp) = Inl e" by (simp add: parse_raw_def)
  moreover from e have "e \<noteq> ValidationError" by auto
  ultimately show "get_word_details llm loads w =
      (Inl e, [LlmInvoke w, LogRawResponse w resp, LogCleanedResponse w (clean_response resp)])"
    using assms by (intro get_word_details_other)
qed

text \<open>
  Two replies: a fenced object whose \<open>meaning\<close> is a number, and the 1100 opening
  brackets.
\<close>

theorem C2_invalid_response_format_error_witness:
  "get_word_details (\<lambda>w. Inr ''```json {\"meaning\": 5} ```'')
     (\<lambda>t. if t = ''{\"meaning\": 5}'' then Inr (JObject [(''meaning'', JInt 5)])
          else Inl JSONDecodeError) ''happy''
   = (Inl (ValueError ''AI response format error.''),
      [LlmInvoke ''happy'', LogRawResponse ''happy'' ''```json {\"meaning\": 5} ```'',
       LogCleanedResponse ''happy'' ''{\"meaning\": 5}'', LogValidationFailed ''happy''])
   \<and> get_word_details (\<lambda>w. Inr (replicate 1100 CHR ''[''))
     (\<lambda>t. if t = replicate 1100 CHR ''['' then Inl RecursionError else Inl JSONDecodeError)
     ''happy''
   = (Inl RecursionError,
      [LlmInvoke ''happy'', LogRawResponse ''happy'' (replicate 1100 CHR ''[''),
       LogCleanedResponse ''happy'' (replicate 1100 CHR ''['')])"
proof -
  have c: "clean_response ''```json {\"meaning\": 5} ```'' = ''{\"meaning\": 5}''"
    by (simp add: clean_response_def strip_def re_sub_def match_open_def match_close_def
      at_end_def isspace_def)
  have "clean_response (replicate (Suc 1099) CHR ''['') = replicate (Suc 1099) CHR ''[''"
    by (rule clean_response_brackets)
  then have d: "clean_response (replicate 1100 CHR ''['') = replicate 1100 CHR ''[''"
    by simp
  have 1: "get_word_details (\<lambda>w. Inr ''```json {\"meaning\": 5} ```'')
     (\<lambda>t. if t = ''{\"meaning\": 5}'' then Inr (JObject [(''meaning'', JInt 5)])
          else Inl JSONDecodeError) ''happy''
   = (Inl (ValueError ''AI response format error.''),
      [LlmInvoke ''happy'', LogRawResponse ''happy'' ''```json {\"meaning\": 5} ```'',
       LogCleanedResponse ''happy'' ''{\"meaning\": 5}'', LogValidationFailed ''happy''])"
    using C2_invalid_response_format_error
      [of "\<lambda>w. Inr ''```json {\"meaning\": 5} ```''" "''happy''" "''```json {\"meaning\": 5} ```''"
          "\<lambda>t. if t = ''{\"meaning\": 5}'' then Inr (JObject [(''meaning'', JInt 5)])
               else Inl JSONDecodeError"]
    by (simp add: c format_error_def)
  have 2: "get_word_details (\<lambda>w. Inr (replicate 1100 CHR ''[''))
     (\<lambda>t. if t = replicate 1100 CHR ''['' then Inl RecursionError else Inl JSONDecodeError)
     ''happy''
   = (Inl RecursionError,
      [LlmInvoke ''happy'', LogRawResponse ''happy'' (replicate 1100 CHR ''[''),
       LogCleanedResponse ''happy'' (replicate 1100 CHR ''['')])"
    using C2_invalid_response_format_error
      [of "\<lambda>w. Inr (replicate 1100 CHR ''['')" "''happy''" "replicate 1100 CHR ''[''"
          "\<lambda>t. if t = replicate 1100 CHR ''['' then Inl RecursionError else Inl JSONDecodeError"]
    by (simp add: d)
  from 1 2 show ?thesis by (rule conjI)
qed

text \<open>
  Claim C3, amended. The cleaning step unwraps the fence that opens with three backquotes
  followed by \<open>json\<close> (in lower case) and closes with three backquotes: for every payload
  with no blank at either end, and any blanks around the payload and around the fence,
  the cleaned text is the payload itself, character for character.
\<close>

theorem C3_clean_json_fence:
  assumes "list_all isspace ws0" and "list_all isspace ws1"
    and "list_all isspace ws2" and "list_all isspace ws3"
    and "strip payload = payload"
  shows "clean_response (ws0 @ ''```json'' @ ws1 @ payload @ ws2 @ ''```'' @ ws3) = payload"
proof -
  let ?x = "''```json'' @ ws1 @ payload @ ws2 @ ''```''"
  have p: "payload = [] \<or> (\<not> isspace (hd payload) \<and> \<not> isspace (last payload))"
    using assms(5) by (rule strip_fixed)
  have "strip (ws0 @ ?x @ ws3) = ?x"
    using assms(1,4) by (intro strip_pad) (simp_all add: isspace_def)
  then have s: "strip (ws0 @ ''```json'' @ ws1 @ payload @ ws2 @ ''```'' @ ws3) = ?x"
    by simp
  have m: "match_open ?x = Some (dropWhile isspace (ws1 @ payload @ ws2 @ ''```''))"
    by (simp add: match_open_def)
  have "sub_from (dropWhile isspace (ws1 @ payload @ ws2 @ ''```'')) = payload"
  proof (cases payload)
    case Nil
    have "dropWhile isspace (ws1 @ ws2 @ ''```'') = ''```''"
      using assms(2,3) by (simp add: dropWhile_all isspace_def)
    then show ?thesis using sub_from_fence [of "[]"] by (simp add: Nil)
  next
    case (Cons c cs)
    with p have "\<not> isspace c" by simp
    with Cons have "dropWhile isspace (ws1 @ payload @ ws2 @ ''```'') = payload @ ws2 @ ''```''"
      using assms(2) by (simp add: dropWhile_all)
    moreover have "sub_from (payload @ ws2 @ ''```'') = payload"
      using p assms(3) by (intro sub_from_payload) auto
    ultimately show ?thesis by simp
  qed
  with m have "re_sub ?x = payload" by (simp add: re_sub_def)
  with s show ?thesis by (simp add: clean_response_def)
qed

theorem C3_clean_json_fence_witness:
  "clean_response '' ```json\<newline>{\"meaning\": \"feeling good\"}\<newline>```\<newline>''
     = ''{\"meaning\": \"feeling good\"}''"
  using C3_clean_json_fence [of "'' ''" "''\<newline>''" "''\<newline>''" "''\<newline>''"
      "''{\"meaning\": \"feeling good\"}''"]
  by (simp add: strip_def isspace_def)

text \<open>
  Claim C3, as stated, covers every fence. This reply is fenced with no \<open>json\<close> after
  the opening backquotes, and the cleaned text keeps them: the pattern's first alternative
  asks for \<open>```json\<close>.
\<close>

theorem C3_plain_fence_counterexample:
  "clean_response ''```\<newline>{}\<newline>```'' = ''```\<newline>{}'' \<and>
   clean_response ''```\<newline>{}\<newline>```'' \<noteq> ''{}''"
  by (simp add: clean_response_def strip_def re_sub_def match_open_def match_close_def
      at_end_def isspace_def)

text \<open>
  Claim C4. When the input is not blank and the reply of the model does not pass
  validation, the lookup raises the format error, the handler shows the error message and
  logs the exception, no image is requested, and the history of the session is what it
  was: the word is not added and no entry changes.
\<close>

theorem C4_format_error_keeps_history:
  assumes "strip word \<noteq> []"
    and "llm (lower (strip word)) = Inr resp"
    and "parse_raw loads (clean_response resp) = Inl ValidationError"
  shows "fst (get_word_details llm loads (lower (strip word))) = Inl format_error
         \<and> history (explore_word llm loads requests_get word s) = history s
         \<and> effects (explore_word llm loads requests_get word s) =
             effects s @
             [LlmInvoke (lower (strip word)), LogRawResponse (lower (strip word)) resp,
              LogCleanedResponse (lower (strip word)) (clean_response resp),
              LogValidationFailed (lower (strip word)),
              StError, LogException (lower (strip word)) format_error]"
proof -
  let ?w = "lower (strip word)"
  have g: "get_word_details llm loads ?w =
      (Inl format_error,
       [LlmInvoke ?w, LogRawResponse ?w resp, LogCleanedResponse ?w (clean_response resp),
        LogValidationFailed ?w])"
    using assms(2,3) by (rule get_word_details_Inl)
  from explore_word_failure [OF assms(1) g, of requests_get s] g
  show ?thesis by simp
qed

theorem C4_format_error_keeps_history_witness:
  "history (explore_word (\<lambda>w. Inr ''Sorry, I cannot help.'') (\<lambda>t. Inl JSONDecodeError) (\<lambda>u. Inr 200) '' Happy ''
      \<lparr>history = [(''sad'', \<lparr>meaning = ''not happy'', opposites = [''glad''],
           similar_words = [''unhappy''], sentences = [''I am sad.''],
           image_prompt = ''a rainy day''\<rparr>)], effects = []\<rparr>)
   = [(''sad'', \<lparr>meaning = ''not happy'', opposites = [''glad''],
           similar_words = [''unhappy''], sentences = [''I am sad.''],
           image_prompt = ''a rainy day''\<rparr>)]"
  using C4_format_error_keeps_history
    [of "'' Happy ''" "\<lambda>w. Inr ''Sorry, I cannot help.''" "''Sorry, I cannot help.''"
        "\<lambda>t. Inl JSONDecodeError" "\<lambda>u. Inr 200"
        "\<lparr>history = [(''sad'', \<lparr>meaning = ''not happy'', opposites = [''glad''],
           similar_words = [''unhappy''], sentences = [''I am sad.''],
           image_prompt = ''a rainy day''\<rparr>)], effects = []\<rparr>"]
  by (simp add: strip_def isspace_def parse_raw_def)

text \<open>
  Claim C5. For an input that is empty or made of blanks only, the handler shows the
  warning and does nothing else: the model is not called, no image is requested, and the
  history is unchanged.
\<close>

theorem C5_blank_input:
  assumes "list_all isspace word"
  shows "history (explore_word llm loads requests_get word s) = history s
         \<and> effects (explore_word llm loads requests_get word s) = effects s @ [StWarning]"
proof -
  from assms have "strip word = []" by (rule strip_blank)
  then show ?thesis by (simp add: explore_word_blank)
qed

theorem C5_blank_input_witness:
  "history (explore_word (\<lambda>w. Inr ''{}'') (\<lambda>t. Inl JSONDecodeError) (\<lambda>u. Inr 200) ''   '' new_session) = []
   \<and> effects (explore_word (\<lambda>w. Inr ''{}'') (\<lambda>t. Inl JSONDecodeError) (\<lambda>u. Inr 200) ''   '' new_session)
       = [StWarning]"
  using C5_blank_input [of "''   ''" "\<lambda>w. Inr ''{}''" "\<lambda>t. Inl JSONDecodeError" "\<lambda>u. Inr 200" new_session]
  by (simp add: isspace_def new_session_def)

text \<open>
  Claim C6. For every description \<open>get_image_for_word\<close> returns normally, whatever the
  HTTP client does: the URL it built when the status is 200, and \<open>None\<close> when the status
  is another one or the client raised an exception.
\<close>

theorem C6_image_failure_is_None:
  "fst (get_image_for_word requests_get description) =
     (if requests_get (image_url_of description) = Inr 200
      then Inr (Some (image_url_of description)) else Inr None)"
  by (simp add: get_image_for_word_Inr)

text \<open>
  Claim C7. The history of a session is a dict, so its keys are distinct. After a
  successful lookup the history holds the record the lookup returned under the normalised
  word (stripped and in lower case), and exactly one entry has that key. After a second
  successful lookup of an input with the same normalised form, the entry holds the second
  record and is still the only one with that key.
\<close>

theorem C7_history_put_get:
  assumes "distinct (map fst (history s))"
    and "strip word \<noteq> []"
    and "fst (get_word_details llm loads (lower (strip word))) = Inr info"
    and "strip word' \<noteq> []"
    and "lower (strip word') = lower (strip word)"
    and "fst (get_word_details llm' loads' (lower (strip word'))) = Inr info'"
  shows "dict_getitem (history (explore_word llm loads rg word s)) (lower (strip word)) = Some info
    \<and> length (filter (\<lambda>kv. fst kv = lower (strip word))
          (history (explore_word llm loads rg word s))) = 1
    \<and> dict_getitem (history (explore_word llm' loads' rg' word'
          (explore_word llm loads rg word s))) (lower (strip word)) = Some info'
    \<and> length (filter (\<lambda>kv. fst kv = lower (strip word))
          (history (explore_word llm' loads' rg' word'
             (explore_word llm loads rg word s)))) = 1"
proof -
  let ?w = "lower (strip word)"
  let ?s1 = "explore_word llm loads rg word s"
  let ?s2 = "explore_word llm' loads' rg' word' ?s1"
  have h1: "history ?s1 = dict_setitem (history s) ?w info"
    using assms(2,3) by (rule explore_word_success)
  have h2: "history ?s2 = dict_setitem (history ?s1) ?w info'"
    using explore_word_success [OF assms(4,6)] by (simp add: assms(5))
  have d1: "distinct (map fst (history ?s1))"
    unfolding h1 using assms(1) by (rule distinct_dict_setitem)
  have "length (filter (\<lambda>kv. fst kv = ?w) (history ?s1)) = 1"
    unfolding h1 using assms(1) by (rule one_entry_dict_setitem)
  moreover have "length (filter (\<lambda>kv. fst kv = ?w) (history ?s2)) = 1"
    unfolding h2 using d1 by (rule one_entry_dict_setitem)
  moreover have "dict_getitem (history ?s1) ?w = Some info"
    by (simp add: dict_getitem_def h1 map_of_dict_setitem)
  moreover have "dict_getitem (history ?s2) ?w = Some info'"
    by (simp add: dict_getitem_def h2 map_of_dict_setitem)
  ultimately show ?thesis by blast
qed

theorem C7_history_put_get_witness:
  "dict_getitem (history
      (explore_word
        (\<lambda>w. Inr ''{\"meaning\":\"glad\",\"opposites\":[\"sad\"],\"similar_words\":[\"joyful\"],\"sentences\":[\"I am happy.\"],\"image_prompt\":\"a sun\"}'')
        (\<lambda>t. if t = ''{\"meaning\":\"glad\",\"opposites\":[\"sad\"],\"similar_words\":[\"joyful\"],\"sentences\":[\"I am happy.\"],\"image_prompt\":\"a sun\"}'' then Inr (JObject [(''meaning'', JString ''glad''), (''opposites'', JArray [JString ''sad'']),
             (''similar_words'', JArray [JString ''joyful'']),
             (''sentences'', JArray [JString ''I am happy.'']),
             (''image_prompt'', JString ''a sun'')]) else Inl JSONDecodeError)
        (\<lambda>u. Inr 200) ''Happy'' new_session)) ''happy''
   = Some \<lparr>meaning = ''glad'', opposites = [''sad''], similar_words = [''joyful''],
            sentences = [''I am happy.''], image_prompt = ''a sun''\<rparr>
   \<and> dict_getitem (history
      (explore_word
        (\<lambda>w. Inr ''```json {\"meaning\":\"feeling good\",\"opposites\":[],\"similar_words\":[],\"sentences\":[],\"image_prompt\":\"a smile\"} ```'')
        (\<lambda>t. if t = ''{\"meaning\":\"feeling good\",\"opposites\":[],\"similar_words\":[],\"sentences\":[],\"image_prompt\":\"a smile\"}'' then Inr (JObject [(''meaning'', JString ''feeling good''), (''opposites'', JArray []),
             (''similar_words'', JArray []), (''sentences'', JArray []),
             (''image_prompt'', JString ''a smile'')]) else Inl JSONDecodeError)
        (\<lambda>u. Inr 404) '' happy ''
        (explore_word
        (\<lambda>w. Inr ''{\"meaning\":\"glad\",\"opposites\":[\"sad\"],\"similar_words\":[\"joyful\"],\"sentences\":[\"I am happy.\"],\"image_prompt\":\"a sun\"}'')
        (\<lambda>t. if t = ''{\"meaning\":\"glad\",\"opposites\":[\"sad\"],\"similar_words\":[\"joyful\"],\"sentences\":[\"I am happy.\"],\"image_prompt\":\"a sun\"}'' then Inr (JObject [(''meaning'', JString ''glad''), (''opposites'', JArray [JString ''sad'']),
             (''similar_words'', JArray [JString ''joyful'']),
             (''sentences'', JArray [JString ''I am happy.'']),
             (''image_prompt'', JString ''a sun'')]) else Inl JSONDecodeError)
        (\<lambda>u. Inr 200) ''Happy'' new_session))) ''happy''
   = Some \<lparr>meaning = ''feeling good'', opposites = [], similar_words = [],
            sentences = [], image_prompt = ''a smile''\<rparr>"
proof -
  let ?llm1 = "\<lambda>w::string. (Inr ''{\"meaning\":\"glad\",\"opposites\":[\"sad\"],\"similar_words\":[\"joyful\"],\"sentences\":[\"I am happy.\"],\"image_prompt\":\"a sun\"}'' :: exn + string)"
  let ?loads1 = "\<lambda>t. if t = ''{\"meaning\":\"glad\",\"opposites\":[\"sad\"],\"similar_words\":[\"joyful\"],\"sentences\":[\"I am happy.\"],\"image_prompt\":\"a sun\"}'' then Inr (JObject [(''meaning'', JString ''glad''), (''opposites'', JArray [JString ''sad'']),
             (''similar_words'', JArray [JString ''joyful'']),
             (''sentences'', JArray [JString ''I am happy.'']),
             (''image_prompt'', JString ''a sun'')]) else Inl JSONDecodeError"
  let ?llm2 = "\<lambda>w::string. (Inr ''```json {\"meaning\":\"feeling good\",\"opposites\":[],\"similar_words\":[],\"sentences\":[],\"image_prompt\":\"a smile\"} ```'' :: exn + string)"
  let ?loads2 = "\<lambda>t. if t = ''{\"meaning\":\"feeling good\",\"opposites\":[],\"similar_words\":[],\"sentences\":[],\"image_prompt\":\"a smile\"}'' then Inr (JObject [(''meaning'', JString ''feeling good''), (''opposites'', JArray []),
             (''similar_words'', JArray []), (''sentences'', JArray []),
             (''image_prompt'', JString ''a smile'')]) else Inl JSONDecodeError"
  have w1: "lower (strip ''Happy'') = ''happy''" and w2: "lower (strip '' happy '') = ''happy''"
    by (simp_all add: lower_def strip_def isspace_def lower_char_def char_of_def bit_0)
  have c1: "clean_response ''{\"meaning\":\"glad\",\"opposites\":[\"sad\"],\"similar_words\":[\"joyful\"],\"sentences\":[\"I am happy.\"],\"image_prompt\":\"a sun\"}'' = ''{\"meaning\":\"glad\",\"opposites\":[\"sad\"],\"similar_words\":[\"joyful\"],\"sentences\":[\"I am happy.\"],\"image_prompt\":\"a sun\"}''"
    by (simp add: clean_response_def strip_def re_sub_def match_open_def match_close_def
        at_end_def isspace_def)
  have c2: "clean_response ''```json {\"meaning\":\"feeling good\",\"opposites\":[],\"similar_words\":[],\"sentences\":[],\"image_prompt\":\"a smile\"} ```'' = ''{\"meaning\":\"feeling good\",\"opposites\":[],\"similar_words\":[],\"sentences\":[],\"image_prompt\":\"a smile\"}''"
    by (simp add: clean_response_def strip_def re_sub_def match_open_def match_close_def
        at_end_def isspace_def)
  have g1: "fst (get_word_details ?llm1 ?loads1 ''happy'') = Inr \<lparr>meaning = ''glad'', opposites = [''sad''], similar_words = [''joyful''],
            sentences = [''I am happy.''], image_prompt = ''a sun''\<rparr>"
    by (simp add: get_word_details_def Let_def parse_raw_def required_def c1)
  have g2: "fst (get_word_details ?llm2 ?loads2 ''happy'') = Inr \<lparr>meaning = ''feeling good'', opposites = [], similar_words = [],
            sentences = [], image_prompt = ''a smile''\<rparr>"
    by (simp add: get_word_details_def Let_def parse_raw_def required_def c2)
  show ?thesis
    using C7_history_put_get [where s = new_session and word = "''Happy''" and llm = ?llm1
        and loads = ?loads1 and word' = "'' happy ''" and llm' = ?llm2 and loads' = ?loads2
        and rg = "\<lambda>u. Inr 200" and rg' = "\<lambda>u. Inr 404"]
    by (simp add: w1 w2 g1 g2 new_session_def) (simp add: strip_def isspace_def)
qed

text \<open>
  Claim C8, as stated, asks validation to fail on an empty \<open>meaning\<close>. The field is
  declared \<open>meaning: str = Field(...)\<close> with no minimal length, and the empty string
  passes.
\<close>

theorem C8_empty_meaning_counterexample:
  "parse_raw
     (\<lambda>t. if t = ''{\"meaning\":\"\",\"opposites\":[\"sad\"],\"similar_words\":[\"glad\"],\"sentences\":[\"I am happy.\"],\"image_prompt\":\"a sun\"}''
          then Inr (JObject [(''meaning'', JString ''''), (''opposites'', JArray [JString ''sad'']),
                 (''similar_words'', JArray [JString ''glad'']),
                 (''sentences'', JArray [JString ''I am happy.'']),
                 (''image_prompt'', JString ''a sun'')])
          else Inl JSONDecodeError)
     ''{\"meaning\":\"\",\"opposites\":[\"sad\"],\"similar_words\":[\"glad\"],\"sentences\":[\"I am happy.\"],\"image_prompt\":\"a sun\"}''
   = Inr \<lparr>meaning = '''', opposites = [''sad''], similar_words = [''glad''],
           sentences = [''I am happy.''], image_prompt = ''a sun''\<rparr>"
  by (simp add: parse_raw_def required_def)

text \<open>
  Claim C8, amended. The field \<open>meaning\<close> is required and is a string: validation fails
  when the object has no key \<open>meaning\<close> or has another kind of value there. It need not be
  non-empty: with the empty string under \<open>meaning\<close> and the four other fields right,
  validation gives the record with the empty meaning.
\<close>

theorem C8_meaning_required_may_be_empty:
  assumes "loads b = Inr (JObject kvs)"
  shows "((\<forall>s. map_of kvs ''meaning'' \<noteq> Some (JString s))
            \<longrightarrow> parse_raw loads b = Inl ValidationError)
       \<and> (map_of kvs ''meaning'' = Some (JString '''')
            \<and> map_of kvs ''opposites'' = Some (JArray (map JString os))
            \<and> map_of kvs ''similar_words'' = Some (JArray (map JString ss))
            \<and> map_of kvs ''sentences'' = Some (JArray (map JString ts))
            \<and> map_of kvs ''image_prompt'' = Some (JString p)
            \<longrightarrow> parse_raw loads b =
                  Inr \<lparr>meaning = '''', opposites = os, similar_words = ss, sentences = ts,
                        image_prompt = p\<rparr>)"
proof (intro conjI impI)
  assume "\<forall>s. map_of kvs ''meaning'' \<noteq> Some (JString s)"
  then have "model_validate (JObject kvs) = None"
    by (intro model_validate_None_str [of "''meaning''"]) simp_all
  with assms show "parse_raw loads b = Inl ValidationError"
    by (simp add: parse_raw_def del: model_validate.simps)
next
  assume "map_of kvs ''meaning'' = Some (JString '''')
            \<and> map_of kvs ''opposites'' = Some (JArray (map JString os))
            \<and> map_of kvs ''similar_words'' = Some (JArray (map JString ss))
            \<and> map_of kvs ''sentences'' = Some (JArray (map JString ts))
            \<and> map_of kvs ''image_prompt'' = Some (JString p)"
  then have "model_validate (JObject kvs) =
      Some \<lparr>meaning = '''', opposites = os, similar_words = ss, sentences = ts, image_prompt = p\<rparr>"
    by (intro model_validate_fields) simp_all
  with assms show "parse_raw loads b =
      Inr \<lparr>meaning = '''', opposites = os, similar_words = ss, sentences = ts, image_prompt = p\<rparr>"
    by (simp add: parse_raw_def del: model_validate.simps)
qed

theorem C8_meaning_required_may_be_empty_witness:
  "parse_raw
     (\<lambda>t. if t = ''{\"opposites\":[\"sad\"],\"similar_words\":[\"glad\"],\"sentences\":[\"I am happy.\"],\"image_prompt\":\"a sun\"}''
          then Inr (JObject [(''opposites'', JArray [JString ''sad'']),
             (''similar_words'', JArray [JString ''glad'']),
             (''sentences'', JArray [JString ''I am happy.'']),
             (''image_prompt'', JString ''a sun'')]) else Inl JSONDecodeError)
     ''{\"opposites\":[\"sad\"],\"similar_words\":[\"glad\"],\"sentences\":[\"I am happy.\"],\"image_prompt\":\"a sun\"}''
   = Inl ValidationError
   \<and> parse_raw
     (\<lambda>t. if t = ''{\"meaning\":\"\",\"opposites\":[\"sad\"],\"similar_words\":[\"glad\"],\"sentences\":[\"I am happy.\"],\"image_prompt\":\"a sun\"}''
          then Inr (JObject [(''meaning'', JString ''''), (''opposites'', JArray [JString ''sad'']),
             (''similar_words'', JArray [JString ''glad'']),
             (''sentences'', JArray [JString ''I am happy.'']),
             (''image_prompt'', JString ''a sun'')]) else Inl JSONDecodeError)
     ''{\"meaning\":\"\",\"opposites\":[\"sad\"],\"similar_words\":[\"glad\"],\"sentences\":[\"I am happy.\"],\"image_prompt\":\"a sun\"}''
   = Inr \<lparr>meaning = '''', opposites = [''sad''], similar_words = [''glad''],
           sentences = [''I am happy.''], image_prompt = ''a sun''\<rparr>"
  using C8_meaning_required_may_be_empty
    [of "\<lambda>t. if t = ''{\"opposites\":[\"sad\"],\"similar_words\":[\"glad\"],\"sentences\":[\"I am happy.\"],\"image_prompt\":\"a sun\"}''
          then Inr (JObject [(''opposites'', JArray [JString ''sad'']),
             (''similar_words'', JArray [JString ''glad'']),
             (''sentences'', JArray [JString ''I am happy.'']),
             (''image_prompt'', JString ''a sun'')]) else Inl JSONDecodeError"
        "''{\"opposites\":[\"sad\"],\"similar_words\":[\"glad\"],\"sentences\":[\"I am happy.\"],\"image_prompt\":\"a sun\"}''"
        "[(''opposites'', JArray [JString ''sad'']),
             (''similar_words'', JArray [JString ''glad'']),
             (''sentences'', JArray [JString ''I am happy.'']),
             (''image_prompt'', JString ''a sun'')]"]
    C8_meaning_required_may_be_empty
    [of "\<lambda>t. if t = ''{\"meaning\":\"\",\"opposites\":[\"sad\"],\"similar_words\":[\"glad\"],\"sentences\":[\"I am happy.\"],\"image_prompt\":\"a sun\"}''
          then Inr (JObject [(''meaning'', JString ''''), (''opposites'', JArray [JString ''sad'']),
             (''similar_words'', JArray [JString ''glad'']),
             (''sentences'', JArray [JString ''I am happy.'']),
             (''image_prompt'', JString ''a sun'')]) else Inl JSONDecodeError"
        "''{\"meaning\":\"\",\"opposites\":[\"sad\"],\"similar_words\":[\"glad\"],\"sentences\":[\"I am happy.\"],\"image_prompt\":\"a sun\"}''"
        "[(''meaning'', JString ''''), (''opposites'', JArray [JString ''sad'']),
             (''similar_words'', JArray [JString ''glad'']),
             (''sentences'', JArray [JString ''I am happy.'']),
             (''image_prompt'', JString ''a sun'')]"
        "[''sad'']" "[''glad'']" "[''I am happy.'']" "''a sun''"]
  by simp

text \<open>
  Claim C9. Validation checks no length: for every object with the five keys rightly
  typed, whatever the lengths of the lists under \<open>opposites\<close>, \<open>similar_words\<close> and
  \<open>sentences\<close> (two, four or no elements as well as three), \<open>parse_raw\<close> returns the
  record with these very lists.
\<close>

theorem C9_no_cardinality_check:
  assumes "loads b = Inr (JObject kvs)"
    and "map_of kvs ''meaning'' = Some (JString m)"
    and "map_of kvs ''opposites'' = Some (JArray (map JString os))"
    and "map_of kvs ''similar_words'' = Some (JArray (map JString ss))"
    and "map_of kvs ''sentences'' = Some (JArray (map JString ts))"
    and "map_of kvs ''image_prompt'' = Some (JString p)"
  shows "parse_raw loads b =
           Inr \<lparr>meaning = m, opposites = os, similar_words = ss, sentences = ts,
                 image_prompt = p\<rparr>"
proof -
  have "model_validate (JObject kvs) =
      Some \<lparr>meaning = m, opposites = os, similar_words = ss, sentences = ts, image_prompt = p\<rparr>"
    using assms(2-6) by (rule model_validate_fields)
  with assms(1) show ?thesis
    by (simp add: parse_raw_def del: model_validate.simps)
qed

theorem C9_no_cardinality_check_witness:
  "parse_raw
       (\<lambda>t. if t = ''{\"meaning\":\"glad\",\"opposites\":[\"sad\",\"gloomy\"],\"similar_words\":[\"joyful\",\"merry\",\"jolly\",\"cheerful\"],\"sentences\":[],\"image_prompt\":\"a sun\"}''
            then Inr (JObject [(''meaning'', JString ''glad''),
                   (''opposites'', JArray [JString ''sad'', JString ''gloomy'']),
                   (''similar_words'', JArray [JString ''joyful'', JString ''merry'',
                       JString ''jolly'', JString ''cheerful'']),
                   (''sentences'', JArray []),
                   (''image_prompt'', JString ''a sun'')])
            else Inl JSONDecodeError)
       ''{\"meaning\":\"glad\",\"opposites\":[\"sad\",\"gloomy\"],\"similar_words\":[\"joyful\",\"merry\",\"jolly\",\"cheerful\"],\"sentences\":[],\"image_prompt\":\"a sun\"}''
   = Inr \<lparr>meaning = ''glad'', opposites = [''sad'', ''gloomy''],
           similar_words = [''joyful'', ''merry'', ''jolly'', ''cheerful''], sentences = [],
           image_prompt = ''a sun''\<rparr>"
  using C9_no_cardinality_check
    [of "\<lambda>t. if t = ''{\"meaning\":\"glad\",\"opposites\":[\"sad\",\"gloomy\"],\"similar_words\":[\"joyful\",\"merry\",\"jolly\",\"cheerful\"],\"sentences\":[],\"image_prompt\":\"a sun\"}''
            then Inr (JObject [(''meaning'', JString ''glad''),
                   (''opposites'', JArray [JString ''sad'', JString ''gloomy'']),
                   (''similar_words'', JArray [JString ''joyful'', JString ''merry'',
                       JString ''jolly'', JString ''cheerful'']),
                   (''sentences'', JArray []),
                   (''image_prompt'', JString ''a sun'')])
            else Inl JSONDecodeError"
        "''{\"meaning\":\"glad\",\"opposites\":[\"sad\",\"gloomy\"],\"similar_words\":[\"joyful\",\"merry\",\"jolly\",\"cheerful\"],\"sentences\":[],\"image_prompt\":\"a sun\"}''"
        "[(''meaning'', JString ''glad''),
                   (''opposites'', JArray [JString ''sad'', JString ''gloomy'']),
                   (''similar_words'', JArray [JString ''joyful'', JString ''merry'',
                       JString ''jolly'', JString ''cheerful'']),
                   (''sentences'', JArray []),
                   (''image_prompt'', JString ''a sun'')]"
        "''glad''" "[''sad'', ''gloomy'']" "[''joyful'', ''merry'', ''jolly'', ''cheerful'']" "[]"
        "''a sun''"]
  by simp

text \<open>
  Claim C10. An object with the five keys rightly typed is accepted whatever other keys
  it has: \<open>parse_raw\<close> returns the record of the five fields, and validation gives the
  same result as on the object with every unknown key removed.
\<close>

theorem C10_extra_keys_ignored:
  assumes "loads b = Inr (JObject kvs)"
    and "map_of kvs ''meaning'' = Some (JString m)"
    and "map_of kvs ''opposites'' = Some (JArray (map JString os))"
    and "map_of kvs ''similar_words'' = Some (JArray (map JString ss))"
    and "map_of kvs ''sentences'' = Some (JArray (map JString ts))"
    and "map_of kvs ''image_prompt'' = Some (JString p)"
  shows "parse_raw loads b =
           Inr \<lparr>meaning = m, opposites = os, similar_words = ss, sentences = ts,
                 image_prompt = p\<rparr>
       \<and> model_validate (JObject kvs) =
           model_validate (JObject (filter
             (\<lambda>kv. fst kv \<in> {''meaning'', ''opposites'', ''similar_words'', ''sentences'',
                              ''image_prompt''}) kvs))"
proof -
  let ?S = "{''meaning'', ''opposites'', ''similar_words'', ''sentences'', ''image_prompt''}"
  let ?r = "\<lparr>meaning = m, opposites = os, similar_words = ss, sentences = ts, image_prompt = p\<rparr>"
  have v: "model_validate (JObject kvs) = Some ?r"
    using assms(2-6) by (rule model_validate_fields)
  have f: "map_of (filter (\<lambda>kv. fst kv \<in> ?S) kvs) k = map_of kvs k" if "k \<in> ?S" for k
    using that by (rule map_of_filter_keys)
  have "model_validate (JObject (filter (\<lambda>kv. fst kv \<in> ?S) kvs)) = Some ?r"
    by (rule model_validate_fields) (simp_all only: f insertI1 insertI2 assms(2-6))
  moreover from v assms(1) have "parse_raw loads b = Inr ?r"
    by (simp add: parse_raw_def del: model_validate.simps)
  ultimately show ?thesis using v by simp
qed

theorem C10_extra_keys_ignored_witness:
  "parse_raw
     (\<lambda>t. if t = ''{\"note\":7,\"meaning\":\"glad\",\"opposites\":[\"sad\"],\"similar_words\":[\"joyful\"],\"sentences\":[\"I am happy.\"],\"image_prompt\":\"a sun\",\"tags\":[null]}''
          then Inr (JObject [(''note'', JInt 7), (''meaning'', JString ''glad''),
                 (''opposites'', JArray [JString ''sad'']),
                 (''similar_words'', JArray [JString ''joyful'']),
                 (''sentences'', JArray [JString ''I am happy.'']),
                 (''image_prompt'', JString ''a sun''), (''tags'', JArray [JNull])])
          else Inl JSONDecodeError)
     ''{\"note\":7,\"meaning\":\"glad\",\"opposites\":[\"sad\"],\"similar_words\":[\"joyful\"],\"sentences\":[\"I am happy.\"],\"image_prompt\":\"a sun\",\"tags\":[null]}''
   = Inr \<lparr>meaning = ''glad'', opposites = [''sad''], similar_words = [''joyful''],
           sentences = [''I am happy.''], image_prompt = ''a sun''\<rparr>"
  using C10_extra_keys_ignored
    [of "\<lambda>t. if t = ''{\"note\":7,\"meaning\":\"glad\",\"opposites\":[\"sad\"],\"similar_words\":[\"joyful\"],\"sentences\":[\"I am happy.\"],\"image_prompt\":\"a sun\",\"tags\":[null]}''
          then Inr (JObject [(''note'', JInt 7), (''meaning'', JString ''glad''),
                 (''opposites'', JArray [JString ''sad'']),
                 (''similar_words'', JArray [JString ''joyful'']),
                 (''sentences'', JArray [JString ''I am happy.'']),
                 (''image_prompt'', JString ''a sun''), (''tags'', JArray [JNull])])
          else Inl JSONDecodeError"
        "''{\"note\":7,\"meaning\":\"glad\",\"opposites\":[\"sad\"],\"similar_words\":[\"joyful\"],\"sentences\":[\"I am happy.\"],\"image_prompt\":\"a sun\",\"tags\":[null]}''"
        "[(''note'', JInt 7), (''meaning'', JString ''glad''),
                 (''opposites'', JArray [JString ''sad'']),
                 (''similar_words'', JArray [JString ''joyful'']),
                 (''sentences'', JArray [JString ''I am happy.'']),
                 (''image_prompt'', JString ''a sun''), (''tags'', JArray [JNull])]"
        "''glad''" "[''sad'']" "[''joyful'']" "[''I am happy.'']" "''a sun''"]
  by simp

end
